theory Spec2Isabelle
  imports Complex_Main "HOL-Library.Multiset"
begin

section \<open>Numbers, plates and bars\<close>

text \<open>
  The program is \<^verbatim>\<open>src/App.jsx\<close>, a React application. Its weights are JavaScript
  numbers. They are modelled here as exact reals: the rounding error of IEEE-754 double
  arithmetic and the values \<^verbatim>\<open>Infinity\<close> and \<^verbatim>\<open>-0\<close> are not part of the model.
  \<^verbatim>\<open>NaN\<close> is modelled where the program tests for it, at \<^verbatim>\<open>parseFloat\<close> of the target
  weight, as \<open>None\<close>. Quantities are integers (\<^verbatim>\<open>parseInt\<close>). Units, ids, colours and
  modes are JavaScript strings and stay strings.
\<close>

record plate =
  plate_id :: string
  weight :: real
  quantity :: int
  color :: string

record bar =
  bar_id :: string
  bar_name :: string
  bar_weight :: real
  bar_unit :: string

subsection \<open>Helpers of the source\<close>

text \<open>
  \<^verbatim>\<open>const convertWeight = (weight, unit, baseUnit = 'lbs') => { ... }\<close>.
  The default value of the third parameter is written out at every call that omits it.
\<close>

definition lbsToKg :: real where
  "lbsToKg = 453592 / 1000000"

definition convertWeight :: "real \<Rightarrow> string \<Rightarrow> string \<Rightarrow> real" where
  "convertWeight w unit baseUnit =
     (if unit = ''kg'' \<and> baseUnit = ''lbs'' then w * lbsToKg
      else if unit = ''lbs'' \<and> baseUnit = ''kg'' then w / lbsToKg
      else w)"

text \<open>
  \<^verbatim>\<open>Math.round\<close> rounds to the nearest integer, a tie towards plus infinity.
\<close>

definition Math_round :: "real \<Rightarrow> int" where
  "Math_round x = \<lfloor>x + 1 / 2\<rfloor>"

text \<open>
  \<^verbatim>\<open>Number(Math.round(value + 'e' + decimals) + 'e-' + decimals)\<close>: the decimal point of
  the value is shifted by appending an exponent to its decimal string, the shifted value
  is rounded to an integer, and the point is shifted back. The model is the value this
  computes for a number that JavaScript prints without an exponent of its own (0, and
  magnitudes from \<^verbatim>\<open>1e-6\<close> up to \<^verbatim>\<open>1e21\<close>).
\<close>

definition roundToDecimal :: "real \<Rightarrow> nat \<Rightarrow> real" where
  "roundToDecimal v decimals = real_of_int (Math_round (v * 10 ^ decimals)) / 10 ^ decimals"

text \<open>
  \<^verbatim>\<open>weight % 1 === 0 ? weight : weight.toFixed(2)\<close>: a whole number is shown as it is,
  any other number as the string \<^verbatim>\<open>toFixed(2)\<close> makes. \<open>ToFixed2 neg h\<close> stands for the
  string of \<open>h\<close> hundredths, with a minus sign in front when \<open>neg\<close> holds;
  \<^verbatim>\<open>toFixed\<close> takes the sign off, and rounds a tie upwards.
\<close>

datatype shown = AsNumber real | ToFixed2 bool nat

definition toFixed2 :: "real \<Rightarrow> shown" where
  "toFixed2 x = ToFixed2 (x < 0) (nat \<lfloor>\<bar>x\<bar> * 100 + 1 / 2\<rfloor>)"

definition formatWeight :: "real \<Rightarrow> shown" where
  "formatWeight w = (if real_of_int \<lfloor>w\<rfloor> = w then AsNumber w else toFixed2 w)"

text \<open>
  \<^verbatim>\<open>xs.reduce((sum, p) => sum + p.weight, 0)\<close>, a left fold from 0.
\<close>

definition sumWeights :: "plate list \<Rightarrow> real" where
  "sumWeights ps = foldl (\<lambda>sum p. sum + weight p) 0 ps"

text \<open>
  \<^verbatim>\<open>bars.find(b => b.id === selectedBarId)\<close>, in both pages: the first bar with the
  selected id, \<open>None\<close> for \<^verbatim>\<open>undefined\<close>.
\<close>

definition findBar :: "bar list \<Rightarrow> string \<Rightarrow> bar option" where
  "findBar bars selectedBarId = find (\<lambda>b. bar_id b = selectedBarId) bars"

section \<open>The reverse accumulator (ReverseCalculatorPage)\<close>

text \<open>
  \<^verbatim>\<open>bars.find(b => b.id === selectedBarId)?.weight || 0\<close>: the weight is \<^verbatim>\<open>undefined\<close>,
  here \<open>None\<close>, when no bar is found; \<^verbatim>\<open>undefined\<close> and the number 0 are falsy and
  give the right operand.
\<close>

definition orZero :: "real option \<Rightarrow> real" where
  "orZero x = (case x of None \<Rightarrow> 0 | Some w \<Rightarrow> if w = 0 then 0 else w)"

definition sidednessNumSides :: "string \<Rightarrow> real" where
  "sidednessNumSides sidedness = (if sidedness = ''both-sides'' then 2 else 1)"

definition totalWeightInLbs :: "bar list \<Rightarrow> string \<Rightarrow> plate list \<Rightarrow> string \<Rightarrow> real" where
  "totalWeightInLbs bars selectedBarId selectedPlates sidedness =
     (let barWeightInLbs = orZero (map_option bar_weight (findBar bars selectedBarId));
          platesWeightPerSideInLbs = sumWeights selectedPlates;
          numSides = sidednessNumSides sidedness
      in barWeightInLbs + (platesWeightPerSideInLbs * numSides))"

text \<open>The value the effect stores with \<^verbatim>\<open>setTotalWeight\<close>.\<close>

definition totalWeight :: "string \<Rightarrow> bar list \<Rightarrow> string \<Rightarrow> plate list \<Rightarrow> string \<Rightarrow> real" where
  "totalWeight unit bars selectedBarId selectedPlates sidedness =
     convertWeight (totalWeightInLbs bars selectedBarId selectedPlates sidedness) unit ''lbs''"

section \<open>The forward resolver (CalculatorPage)\<close>

text \<open>
  \<^verbatim>\<open>plates.sort((a, b) => b.weight - a.weight)\<close>. \<^verbatim>\<open>Array.prototype.sort\<close> sorts the
  array it is called on, in place, and is stable: an element goes before the first
  element it does not compare greater than.
\<close>

fun insertSorted :: "('a \<Rightarrow> 'a \<Rightarrow> real) \<Rightarrow> 'a \<Rightarrow> 'a list \<Rightarrow> 'a list" where
  "insertSorted cmp x [] = [x]"
| "insertSorted cmp x (y # ys) =
     (if cmp x y \<le> 0 then x # y # ys else y # insertSorted cmp x ys)"

definition arraySort :: "('a \<Rightarrow> 'a \<Rightarrow> real) \<Rightarrow> 'a list \<Rightarrow> 'a list" where
  "arraySort cmp xs = foldr (insertSorted cmp) xs []"

definition byWeightDescending :: "plate \<Rightarrow> plate \<Rightarrow> real" where
  "byWeightDescending a b = weight b - weight a"

text \<open>
  \<^verbatim>\<open>JSON.parse(JSON.stringify(xs))\<close>: a new array of new objects with the same fields.
\<close>

definition jsonCopy :: "plate list \<Rightarrow> plate list" where
  "jsonCopy xs =
     map (\<lambda>p. \<lparr>plate_id = plate_id p, weight = weight p, quantity = quantity p,
               color = color p\<rparr>) xs"

definition calculationNumSides :: "string \<Rightarrow> real" where
  "calculationNumSides calculationType = (if calculationType = ''two-sided'' then 2 else 1)"

text \<open>
  The loop \<^verbatim>\<open>for (const plate of availablePlates)\<close> of lines 326 to 333, with the two
  variables it updates, \<^verbatim>\<open>weightPerSideInLbs\<close> and \<^verbatim>\<open>platesForSide\<close>, as arguments.
  The inner loop \<^verbatim>\<open>for (let i = 0; i < platesToUse; i++)\<close> pushes the plate
  \<open>nat platesToUse\<close> times (not at all when \<open>platesToUse\<close> is not positive); the
  subtraction after it uses \<open>platesToUse\<close> itself.
\<close>

fun loadPlates :: "real \<Rightarrow> plate list \<Rightarrow> real \<Rightarrow> plate list \<Rightarrow> plate list" where
  "loadPlates numSides [] weightPerSideInLbs platesForSide = platesForSide"
| "loadPlates numSides (plate # rest) weightPerSideInLbs platesForSide =
     (if weight plate \<le> 0 then loadPlates numSides rest weightPerSideInLbs platesForSide
      else
        let platesNeeded = \<lfloor>roundToDecimal (weightPerSideInLbs / weight plate) 3 + 1 / 10 ^ 9\<rfloor>;
            platesToUse = min platesNeeded \<lfloor>real_of_int (quantity plate) / numSides\<rfloor>
        in loadPlates numSides rest
             (roundToDecimal (weightPerSideInLbs - real_of_int platesToUse * weight plate) 3)
             (platesForSide @ replicate (nat platesToUse) plate))"

text \<open>
  The messages of the result, with the values the template strings interpolate:
  \<^verbatim>\<open>'Loading inventory...'\<close>, \<^verbatim>\<open>'Please select a bar.'\<close>, \<^verbatim>\<open>'Enter a valid target weight.'\<close>,
  \<^verbatim>\<open>`Weight must be at least the bar weight (${displayBarWeight} ${unit}).`\<close>,
  \<^verbatim>\<open>`Just the bar (${displayBarWeight} ${unit}).`\<close>,
  \<^verbatim>\<open>`Closest is ${displayLoadedWeight} ${unit}.`\<close> and
  \<^verbatim>\<open>`Total: ${displayLoadedWeight} ${unit}`\<close>.
\<close>

datatype message =
    LoadingInventory
  | PleaseSelectABar
  | EnterAValidTargetWeight
  | WeightMustBeAtLeast real string
  | JustTheBar real string
  | ClosestIs shown string
  | Total shown string

record result =
  result_plates :: "plate list"
  result_message :: message

text \<open>
  Lines 300 and 301: \<^verbatim>\<open>parseFloat(targetWeight)\<close> is the argument \<open>parsed\<close>, \<open>None\<close> when
  it is \<^verbatim>\<open>NaN\<close>; a target in kilograms is converted to pounds.
\<close>

definition targetInLbsOf :: "string \<Rightarrow> real option \<Rightarrow> real option" where
  "targetInLbsOf unit parsed =
     (if unit = ''kg'' then map_option (\<lambda>t. convertWeight t ''lbs'' ''kg'') parsed else parsed)"

text \<open>
  Line 335, the achieved total in pounds:
  \<^verbatim>\<open>platesForSide.reduce((sum, p) => sum + p.weight, 0) * numSides + barWeightInLbs\<close>.
\<close>

definition loadedWeightInLbsOf :: "plate list \<Rightarrow> real \<Rightarrow> real \<Rightarrow> real" where
  "loadedWeightInLbsOf platesForSide numSides barWeightInLbs =
     sumWeights platesForSide * numSides + barWeightInLbs"

text \<open>
  Lines 323 to 344: the inventory array is sorted in place, the sorted array is copied,
  the copy is walked by the loop, and the loaded weight is compared with the target.
  The first component of the value is the inventory array as the call leaves it.
\<close>

definition loadAndReport ::
  "string \<Rightarrow> real \<Rightarrow> real \<Rightarrow> real \<Rightarrow> real \<Rightarrow> plate list \<Rightarrow> plate list \<times> result" where
  "loadAndReport unit targetInLbs barWeightInLbs numSides weightPerSideInLbs plates =
     (let sortedPlates = arraySort byWeightDescending plates;
          availablePlates = jsonCopy sortedPlates;
          platesForSide = loadPlates numSides availablePlates weightPerSideInLbs [];
          loadedWeightInLbs = loadedWeightInLbsOf platesForSide numSides barWeightInLbs;
          loadedWeight = convertWeight loadedWeightInLbs unit ''lbs'';
          displayLoadedWeight = formatWeight loadedWeight
      in (sortedPlates,
          if \<bar>roundToDecimal loadedWeightInLbs 3 - roundToDecimal targetInLbs 3\<bar> > 1 / 100
          then \<lparr>result_plates = platesForSide,
                 result_message = ClosestIs displayLoadedWeight unit\<rparr>
          else \<lparr>result_plates = platesForSide,
                 result_message = Total displayLoadedWeight unit\<rparr>))"

text \<open>
  The resolution effect of \<^verbatim>\<open>CalculatorPage\<close>, lines 290 to 345. Its inputs are the props
  \<^verbatim>\<open>unit\<close> and \<^verbatim>\<open>targetWeight\<close> (parsed), the state \<^verbatim>\<open>selectedBarId\<close> and
  \<^verbatim>\<open>calculationType\<close>, and \<^verbatim>\<open>isLoading\<close>, \<^verbatim>\<open>bars\<close> and \<^verbatim>\<open>plates\<close> of the inventory
  context. Its value is the \<^verbatim>\<open>plates\<close> array after the call and the result it passes to
  \<^verbatim>\<open>setResult\<close>. The empty string is the falsy \<^verbatim>\<open>selectedBarId\<close>.
\<close>

definition resolvePlates ::
  "string \<Rightarrow> real option \<Rightarrow> bool \<Rightarrow> string \<Rightarrow> string \<Rightarrow> bar list \<Rightarrow> plate list
     \<Rightarrow> plate list \<times> result" where
  "resolvePlates unit parsed isLoading selectedBarId calculationType bars plates =
     (if isLoading \<or> selectedBarId = ''''
      then (plates, \<lparr>result_plates = [], result_message = LoadingInventory\<rparr>)
      else case findBar bars selectedBarId of
        None \<Rightarrow> (plates, \<lparr>result_plates = [], result_message = PleaseSelectABar\<rparr>)
      | Some b \<Rightarrow>
          (case targetInLbsOf unit parsed of
            None \<Rightarrow> (plates, \<lparr>result_plates = [], result_message = EnterAValidTargetWeight\<rparr>)
          | Some targetInLbs \<Rightarrow>
              if targetInLbs < 0
              then (plates, \<lparr>result_plates = [], result_message = EnterAValidTargetWeight\<rparr>)
              else
                let barWeightInLbs = bar_weight b;
                    displayBarWeight = convertWeight barWeightInLbs unit ''lbs''
                in if targetInLbs < barWeightInLbs
                   then (plates, \<lparr>result_plates = [],
                           result_message = WeightMustBeAtLeast displayBarWeight unit\<rparr>)
                   else
                     let weightToLoadInLbs = targetInLbs - barWeightInLbs;
                         numSides = calculationNumSides calculationType;
                         weightPerSideInLbs = weightToLoadInLbs / numSides
                     in if \<bar>weightToLoadInLbs\<bar> < 1 / 100
                        then (plates, \<lparr>result_plates = [],
                                result_message = JustTheBar displayBarWeight unit\<rparr>)
                        else loadAndReport unit targetInLbs barWeightInLbs numSides
                               weightPerSideInLbs plates))"

section \<open>Inventories of the source and of the specification's scenarios\<close>

text \<open>
  \<^verbatim>\<open>defaultPlates\<close> and \<^verbatim>\<open>defaultBars\<close> of the source. The source draws the ids with
  \<^verbatim>\<open>crypto.randomUUID()\<close>; fixed distinct strings stand for them here. The id
  \<^verbatim>\<open>'no-bar'\<close> is the source's own.
\<close>

definition defaultPlates :: "plate list" where
  "defaultPlates =
     [\<lparr>plate_id = ''plate-45'', weight = 45, quantity = 12, color = ''#F97316''\<rparr>,
      \<lparr>plate_id = ''plate-25'', weight = 25, quantity = 4, color = ''#3B82F6''\<rparr>,
      \<lparr>plate_id = ''plate-10'', weight = 10, quantity = 6, color = ''#FBBF24''\<rparr>,
      \<lparr>plate_id = ''plate-5'', weight = 5, quantity = 6, color = ''#10B981''\<rparr>,
      \<lparr>plate_id = ''plate-2.5'', weight = 5 / 2, quantity = 6, color = ''#6B7280''\<rparr>]"

definition defaultBars :: "bar list" where
  "defaultBars =
     [\<lparr>bar_id = ''bar-standard'', bar_name = ''Standard Barbell'', bar_weight = 45,
        bar_unit = ''lbs''\<rparr>,
      \<lparr>bar_id = ''bar-ez'', bar_name = ''EZ Curl Bar'', bar_weight = 10, bar_unit = ''lbs''\<rparr>,
      \<lparr>bar_id = ''bar-dumbbell'', bar_name = ''Dumbbell Bar'', bar_weight = 5,
        bar_unit = ''lbs''\<rparr>,
      \<lparr>bar_id = ''no-bar'', bar_name = ''No Bar'', bar_weight = 0, bar_unit = ''lbs''\<rparr>]"

text \<open>
  The inventory of the specification's scenarios: four plates each of 45, 25, 10, 5 and
  2.5 pounds. The ids and colours are parameters: \<open>ident k\<close> and \<open>col k\<close> are those
  of the plate at position \<open>k\<close>.
\<close>

definition scenarioPlate :: "(nat \<Rightarrow> string) \<Rightarrow> (nat \<Rightarrow> string) \<Rightarrow> nat \<Rightarrow> real \<Rightarrow> plate" where
  "scenarioPlate ident col k w = \<lparr>plate_id = ident k, weight = w, quantity = 4, color = col k\<rparr>"

definition scenarioPlates :: "(nat \<Rightarrow> string) \<Rightarrow> (nat \<Rightarrow> string) \<Rightarrow> plate list" where
  "scenarioPlates ident col =
     [scenarioPlate ident col 0 45, scenarioPlate ident col 1 25, scenarioPlate ident col 2 10,
      scenarioPlate ident col 3 5, scenarioPlate ident col 4 (5 / 2)]"

text \<open>
  The inventory of the specification's fifth scenario: one plate of 10 pounds, owned once.
\<close>

definition singleTen :: "plate list" where
  "singleTen = [\<lparr>plate_id = ''plate-10'', weight = 10, quantity = 1, color = ''#FBBF24''\<rparr>]"

section \<open>Facts about the helpers\<close>

lemma foldl_add_weight: "foldl (\<lambda>sum p. sum + weight p) a ps = a + sum_list (map weight ps)"
  by (induction ps arbitrary: a) simp_all

lemma sumWeights_sum_list: "sumWeights ps = sum_list (map weight ps)"
  by (simp add: sumWeights_def foldl_add_weight)

lemma orZero_Some: "orZero (Some w) = w"
  by (simp add: orZero_def)

section \<open>Facts about sorting and copying\<close>

lemma insertSorted_insort_key:
  "insertSorted byWeightDescending x ys = insort_key (\<lambda>p. - weight p) x ys"
  by (induction ys) (simp_all add: byWeightDescending_def)

lemma arraySort_sort_key:
  "arraySort byWeightDescending xs = sort_key (\<lambda>p. - weight p) xs"
  by (induction xs) (simp_all add: arraySort_def insertSorted_insort_key)

lemma plate_rebuild:
  "\<lparr>plate_id = plate_id p, weight = weight p, quantity = quantity p, color = color p\<rparr> = (p::plate)"
  by (cases p) simp

lemma jsonCopy_same: "jsonCopy xs = xs"
  by (simp add: jsonCopy_def plate_rebuild)

lemma arraySort_descending:
  "sorted_wrt (\<lambda>a b. weight b \<le> weight a) (arraySort byWeightDescending xs)"
proof -
  have "sorted (map (\<lambda>p. - weight p) (sort_key (\<lambda>p. - weight p) xs))"
    by (rule sorted_sort_key)
  then show ?thesis
    by (simp add: arraySort_sort_key sorted_map)
qed

lemma arraySort_sorted_same:
  assumes "sorted_wrt (\<lambda>a b. weight b \<le> weight a) xs"
  shows "arraySort byWeightDescending xs = xs"
proof -
  from assms have "sorted (map (\<lambda>p. - weight p) xs)"
    by (simp add: sorted_map)
  then show ?thesis
    by (simp add: arraySort_sort_key sort_key_id_if_sorted)
qed

lemma arraySort_idem:
  "arraySort byWeightDescending (arraySort byWeightDescending xs) = arraySort byWeightDescending xs"
  by (rule arraySort_sorted_same) (rule arraySort_descending)

lemma mset_arraySort: "mset (arraySort byWeightDescending xs) = mset xs"
  by (simp add: arraySort_sort_key)

lemma set_arraySort: "set (arraySort byWeightDescending xs) = set xs"
  by (simp add: arraySort_sort_key)

section \<open>Facts about the loop\<close>

lemma replicate_descending:
  "sorted_wrt (\<lambda>a b. weight b \<le> weight a) (replicate k (p::plate))"
  by (induction k) simp_all

lemma loadPlates_descending:
  "sorted_wrt (\<lambda>a b. weight b \<le> weight a) (acc @ ps) \<Longrightarrow>
   sorted_wrt (\<lambda>a b. weight b \<le> weight a) (loadPlates n ps w acc)"
proof (induction ps arbitrary: w acc)
  case Nil
  then show ?case by simp
next
  case (Cons p ps)
  from Cons.prems have skip: "sorted_wrt (\<lambda>a b. weight b \<le> weight a) (acc @ ps)"
    by (auto simp: sorted_wrt_append)
  from Cons.prems have use: "sorted_wrt (\<lambda>a b. weight b \<le> weight a) ((acc @ replicate k p) @ ps)" for k
    by (auto simp: sorted_wrt_append replicate_descending)
  show ?case
    using Cons.IH [OF skip] Cons.IH [OF use] by (simp add: Let_def)
qed

lemma loadPlates_count:
  "length (filter (\<lambda>q. plate_id q = i) (loadPlates n ps w acc)) \<le>
     length (filter (\<lambda>q. plate_id q = i) acc) +
     (\<Sum>p\<leftarrow>filter (\<lambda>q. plate_id q = i) ps. nat \<lfloor>real_of_int (quantity p) / n\<rfloor>)"
proof (induction ps arbitrary: w acc)
  case Nil
  then show ?case by simp
next
  case (Cons p ps)
  show ?case
  proof (cases "weight p \<le> 0")
    case True
    then show ?thesis
      using Cons.IH [of w acc] by simp
  next
    case False
    define k where "k = min \<lfloor>roundToDecimal (w / weight p) 3 + 1 / 10 ^ 9\<rfloor> \<lfloor>real_of_int (quantity p) / n\<rfloor>"
    have k: "nat k \<le> nat \<lfloor>real_of_int (quantity p) / n\<rfloor>"
      unfolding k_def by simp
    have step: "loadPlates n (p # ps) w acc =
      loadPlates n ps (roundToDecimal (w - real_of_int k * weight p) 3) (acc @ replicate (nat k) p)"
      using False by (simp add: k_def Let_def)
    show ?thesis
      unfolding step
      using Cons.IH [of "roundToDecimal (w - real_of_int k * weight p) 3" "acc @ replicate (nat k) p"] k
      by auto
  qed
qed

section \<open>Facts about the resolution effect\<close>

lemma fst_loadAndReport:
  "fst (loadAndReport unit t bw n w plates) = arraySort byWeightDescending plates"
  by (simp add: loadAndReport_def Let_def)

lemma plates_loadAndReport:
  "result_plates (snd (loadAndReport unit t bw n w plates)) =
     loadPlates n (arraySort byWeightDescending plates) w []"
  by (simp add: loadAndReport_def Let_def jsonCopy_same)

lemma loadAndReport_sorted_input:
  "loadAndReport unit t bw n w (arraySort byWeightDescending plates) =
     loadAndReport unit t bw n w plates"
  by (simp add: loadAndReport_def arraySort_idem)

lemma message_loadAndReport:
  "result_message (snd (loadAndReport unit t bw n w plates)) \<in>
     {Total (formatWeight (convertWeight (loadedWeightInLbsOf
        (result_plates (snd (loadAndReport unit t bw n w plates))) n bw) unit ''lbs'')) unit,
      ClosestIs (formatWeight (convertWeight (loadedWeightInLbsOf
        (result_plates (snd (loadAndReport unit t bw n w plates))) n bw) unit ''lbs'')) unit}"
  by (simp add: loadAndReport_def Let_def)

lemma calculationNumSides_pos: "0 < calculationNumSides c"
  by (simp add: calculationNumSides_def)

lemma reverse_total_is_loaded_weight:
  assumes "findBar bars sel = Some b"
    and "(sidedness = ''both-sides'') = (calculationType = ''two-sided'')"
  shows "totalWeightInLbs bars sel ps sidedness =
           loadedWeightInLbsOf ps (calculationNumSides calculationType) (bar_weight b)"
  using assms
  by (simp add: totalWeightInLbs_def loadedWeightInLbsOf_def sidednessNumSides_def
      calculationNumSides_def orZero_Some)

lemma filter_id_distinct:
  "distinct (map plate_id ps) \<Longrightarrow> p \<in> set ps \<Longrightarrow>
   filter (\<lambda>q. plate_id q = plate_id p) ps = [p]"
proof (induction ps)
  case Nil
  then show ?case by simp
next
  case (Cons a ps)
  show ?case
  proof (cases "a = p")
    case True
    with Cons.prems have "\<forall>q \<in> set ps. plate_id q \<noteq> plate_id p"
      by (auto simp: image_iff)
    then have "filter (\<lambda>q. plate_id q = plate_id p) ps = []"
      by (simp add: filter_empty_conv)
    with True show ?thesis by simp
  next
    case False
    with Cons.prems have "p \<in> set ps" and "plate_id a \<noteq> plate_id p"
      by auto
    with Cons show ?thesis by simp
  qed
qed

lemma fst_resolvePlates:
  "fst (resolvePlates unit parsed isLoading sel calculationType bars plates) = plates
   \<or> fst (resolvePlates unit parsed isLoading sel calculationType bars plates) =
       arraySort byWeightDescending plates"
  by (simp add: resolvePlates_def Let_def fst_loadAndReport split: option.splits)

lemma resolvePlates_inventory_mset:
  "mset (fst (resolvePlates unit parsed isLoading sel calculationType bars plates)) = mset plates"
  using fst_resolvePlates [of unit parsed isLoading sel calculationType bars plates]
  by (auto simp: mset_arraySort)

lemma resolvePlates_sorted_inventory_same:
  assumes "sorted_wrt (\<lambda>a b. weight b \<le> weight a) plates"
  shows "fst (resolvePlates unit parsed isLoading sel calculationType bars plates) = plates"
  using fst_resolvePlates [of unit parsed isLoading sel calculationType bars plates]
  by (auto simp: arraySort_sorted_same [OF assms])

lemma sum_caps_arraySort:
  "(\<Sum>p\<leftarrow>filter P (arraySort byWeightDescending plates). (f p :: nat)) =
   (\<Sum>p\<leftarrow>filter P plates. f p)"
proof -
  have "mset (map f (filter P (arraySort byWeightDescending plates))) =
        mset (map f (filter P plates))"
    by (simp add: mset_arraySort)
  then show ?thesis
    by (metis sum_mset_sum_list)
qed

lemma loadout_count_by_id:
  "length (filter (\<lambda>q. plate_id q = i)
     (result_plates (snd (resolvePlates unit parsed isLoading sel calculationType bars plates))))
   \<le> (\<Sum>p\<leftarrow>filter (\<lambda>q. plate_id q = i) plates.
         nat \<lfloor>real_of_int (quantity p) / calculationNumSides calculationType\<rfloor>)"
proof -
  let ?n = "calculationNumSides calculationType"
  have "length (filter (\<lambda>q. plate_id q = i)
          (result_plates (snd (loadAndReport unit t bw ?n w plates))))
        \<le> (\<Sum>p\<leftarrow>filter (\<lambda>q. plate_id q = i) plates. nat \<lfloor>real_of_int (quantity p) / ?n\<rfloor>)"
    for t bw w
    using loadPlates_count [of i ?n "arraySort byWeightDescending plates" w "[]"]
    by (simp add: plates_loadAndReport sum_caps_arraySort)
  then show ?thesis
    by (simp add: resolvePlates_def Let_def split: option.splits)
qed

lemma owned_once_unused_two_sided:
  assumes "distinct (map plate_id plates)" and "p \<in> set plates" and "quantity p = 1"
  shows "filter (\<lambda>q. plate_id q = plate_id p)
           (result_plates (snd (resolvePlates unit parsed isLoading sel ''two-sided'' bars plates))) = []"
  using loadout_count_by_id [of "plate_id p" unit parsed isLoading sel "''two-sided''" bars plates]
  by (simp add: filter_id_distinct [OF assms(1,2)] assms(3) calculationNumSides_def)

lemma loadPlates_step:
  assumes "0 < weight p"
    and "\<lfloor>roundToDecimal (w / weight p) 3 + 1 / 10 ^ 9\<rfloor> = needed"
    and "min needed \<lfloor>real_of_int (quantity p) / n\<rfloor> = k"
    and "roundToDecimal (w - real_of_int k * weight p) 3 = w'"
  shows "loadPlates n (p # rest) w acc = loadPlates n rest w' (acc @ replicate (nat k) p)"
  using assms by (simp add: Let_def)

subsection \<open>The effect on the inventories above\<close>

lemma findBar_default_standard:
  "findBar defaultBars ''bar-standard'' = Some (hd defaultBars)"
  by (simp add: findBar_def defaultBars_def)

lemma findBar_default_nobar:
  "findBar defaultBars ''no-bar'' = Some (last defaultBars)"
  by (simp add: findBar_def defaultBars_def)

lemma weight_default_standard: "bar_weight (hd defaultBars) = 45"
  by (simp add: defaultBars_def)

lemma resolve_default_140:
  "resolvePlates ''lbs'' (Some 140) False ''bar-standard'' ''two-sided'' defaultBars defaultPlates =
     (defaultPlates,
      \<lparr>result_plates = [defaultPlates ! 0, defaultPlates ! 4],
         result_message = Total (AsNumber 140) ''lbs''\<rparr>)"
  by code_simp

lemma resolve_default_60_kg:
  "resolvePlates ''kg'' (Some 60) False ''bar-standard'' ''two-sided'' defaultBars defaultPlates =
     (defaultPlates,
      \<lparr>result_plates = [defaultPlates ! 1, defaultPlates ! 2, defaultPlates ! 3, defaultPlates ! 4],
         result_message = ClosestIs (ToFixed2 False 5897) ''kg''\<rparr>)"
  by code_simp

lemma resolve_unsorted_135:
  "resolvePlates ''lbs'' (Some 135) False ''bar-standard'' ''two-sided'' defaultBars
     (rev defaultPlates) =
     (defaultPlates,
      \<lparr>result_plates = [defaultPlates ! 0], result_message = Total (AsNumber 135) ''lbs''\<rparr>)"
  by code_simp

lemma resolve_single_ten:
  "resolvePlates ''lbs'' (Some 65) False ''bar-standard'' ''two-sided'' defaultBars singleTen =
     (singleTen, \<lparr>result_plates = [], result_message = ClosestIs (AsNumber 45) ''lbs''\<rparr>)"
  by code_simp

lemma scenario_loop:
  "loadPlates 2 (scenarioPlates ident col) (95 / 2) [] =
     [scenarioPlate ident col 0 45, scenarioPlate ident col 4 (5 / 2)]"
proof -
  let ?p0 = "scenarioPlate ident col 0 45" and ?p1 = "scenarioPlate ident col 1 25"
    and ?p2 = "scenarioPlate ident col 2 10" and ?p3 = "scenarioPlate ident col 3 5"
    and ?p4 = "scenarioPlate ident col 4 (5 / 2)"
  have "loadPlates 2 [?p0, ?p1, ?p2, ?p3, ?p4] (95 / 2) [] =
      loadPlates 2 [?p1, ?p2, ?p3, ?p4] (5 / 2) ([] @ replicate (nat 1) ?p0)"
    by (rule loadPlates_step [where needed = 1])
       (simp_all add: scenarioPlate_def roundToDecimal_def Math_round_def)
  also have "\<dots> = loadPlates 2 [?p2, ?p3, ?p4] (5 / 2)
      (([] @ replicate (nat 1) ?p0) @ replicate (nat 0) ?p1)"
    by (rule loadPlates_step [where needed = 0])
       (simp_all add: scenarioPlate_def roundToDecimal_def Math_round_def)
  also have "\<dots> = loadPlates 2 [?p3, ?p4] (5 / 2)
      ((([] @ replicate (nat 1) ?p0) @ replicate (nat 0) ?p1) @ replicate (nat 0) ?p2)"
    by (rule loadPlates_step [where needed = 0])
       (simp_all add: scenarioPlate_def roundToDecimal_def Math_round_def)
  also have "\<dots> = loadPlates 2 [?p4] (5 / 2)
      (((([] @ replicate (nat 1) ?p0) @ replicate (nat 0) ?p1) @ replicate (nat 0) ?p2)
        @ replicate (nat 0) ?p3)"
    by (rule loadPlates_step [where needed = 0])
       (simp_all add: scenarioPlate_def roundToDecimal_def Math_round_def)
  also have "\<dots> = loadPlates 2 [] 0
      ((((([] @ replicate (nat 1) ?p0) @ replicate (nat 0) ?p1) @ replicate (nat 0) ?p2)
        @ replicate (nat 0) ?p3) @ replicate (nat 1) ?p4)"
    by (rule loadPlates_step [where needed = 1])
       (simp_all add: scenarioPlate_def roundToDecimal_def Math_round_def)
  also have "\<dots> = [?p0, ?p4]"
    by simp
  finally show ?thesis
    unfolding scenarioPlates_def .
qed

lemma scenario_sorted:
  "arraySort byWeightDescending (scenarioPlates ident col) = scenarioPlates ident col"
  by (rule arraySort_sorted_same) (simp add: scenarioPlates_def scenarioPlate_def)

section \<open>The claims\<close>

subsection \<open>Round trip\<close>

text \<open>
  Claim C1. Take a selected bar that is found, a valid (parsed, non-negative) target that
  is at least the bar's weight, any mode and any inventory, and let \<open>r\<close> be the result of
  the forward resolver. With the same bar and the matching sidedness, the reverse
  accumulator's formula on the loadout of \<open>r\<close> gives the achieved total of line 335, and
  the message of \<open>r\<close> reports exactly the reverse accumulator's total for that loadout:
  formatted as the reverse page formats it after \<^verbatim>\<open>Total:\<close> and \<^verbatim>\<open>Closest is\<close>, and
  as the bar's weight in \<^verbatim>\<open>Just the bar\<close>, where the loadout is empty.
\<close>

theorem round_trip:
  assumes "\<not> isLoading" and "sel \<noteq> ''''"
    and "findBar bars sel = Some b"
    and "targetInLbsOf unit parsed = Some t"
    and "0 \<le> t" and "bar_weight b \<le> t"
    and "(sidedness = ''both-sides'') = (calculationType = ''two-sided'')"
    and "r = snd (resolvePlates unit parsed isLoading sel calculationType bars plates)"
  shows "totalWeightInLbs bars sel (result_plates r) sidedness =
           loadedWeightInLbsOf (result_plates r) (calculationNumSides calculationType) (bar_weight b)
       \<and> result_message r \<in>
           {Total (formatWeight (totalWeight unit bars sel (result_plates r) sidedness)) unit,
            ClosestIs (formatWeight (totalWeight unit bars sel (result_plates r) sidedness)) unit,
            JustTheBar (totalWeight unit bars sel (result_plates r) sidedness) unit}"
proof
  show "totalWeightInLbs bars sel (result_plates r) sidedness =
          loadedWeightInLbsOf (result_plates r) (calculationNumSides calculationType) (bar_weight b)"
    using assms(3,7) by (rule reverse_total_is_loaded_weight)
next
  let ?n = "calculationNumSides calculationType"
  have total: "totalWeight unit bars sel ps sidedness =
      convertWeight (loadedWeightInLbsOf ps ?n (bar_weight b)) unit ''lbs''" for ps
    by (simp add: totalWeight_def reverse_total_is_loaded_weight [OF assms(3,7)])
  show "result_message r \<in>
           {Total (formatWeight (totalWeight unit bars sel (result_plates r) sidedness)) unit,
            ClosestIs (formatWeight (totalWeight unit bars sel (result_plates r) sidedness)) unit,
            JustTheBar (totalWeight unit bars sel (result_plates r) sidedness) unit}"
  proof (cases "\<bar>t - bar_weight b\<bar> < 1 / 100")
    case True
    with assms have "r = \<lparr>result_plates = [],
        result_message = JustTheBar (convertWeight (bar_weight b) unit ''lbs'') unit\<rparr>"
      by (simp add: resolvePlates_def Let_def)
    then show ?thesis
      by (simp add: total loadedWeightInLbsOf_def sumWeights_def)
  next
    case False
    with assms have "r = snd (loadAndReport unit t (bar_weight b) ?n ((t - bar_weight b) / ?n) plates)"
      by (simp add: resolvePlates_def Let_def)
    then show ?thesis
      unfolding total
      using message_loadAndReport [of unit t "bar_weight b" ?n "(t - bar_weight b) / ?n" plates]
      by blast
  qed
qed

text \<open>
  At the default inventory with the standard bar, 60 kg and two sides: the loadout is one
  plate each of 25, 10, 5 and 2.5 pounds, the reverse accumulator gives 130 pounds for it,
  and both pages show 58.97 kg.
\<close>

theorem round_trip_witness:
  "findBar defaultBars ''bar-standard'' = Some (hd defaultBars)
   \<and> targetInLbsOf ''kg'' (Some 60) = Some (60 / lbsToKg)
   \<and> bar_weight (hd defaultBars) \<le> 60 / lbsToKg
   \<and> totalWeightInLbs defaultBars ''bar-standard''
        [defaultPlates ! 1, defaultPlates ! 2, defaultPlates ! 3, defaultPlates ! 4] ''both-sides''
       = loadedWeightInLbsOf
           [defaultPlates ! 1, defaultPlates ! 2, defaultPlates ! 3, defaultPlates ! 4] 2 45
   \<and> formatWeight (totalWeight ''kg'' defaultBars ''bar-standard''
        [defaultPlates ! 1, defaultPlates ! 2, defaultPlates ! 3, defaultPlates ! 4] ''both-sides'')
       = ToFixed2 False 5897"
proof -
  have target: "targetInLbsOf ''kg'' (Some 60) = Some (60 / lbsToKg)"
    by (simp add: targetInLbsOf_def convertWeight_def)
  have nonneg: "0 \<le> 60 / lbsToKg"
    by (simp add: lbsToKg_def)
  have above: "bar_weight (hd defaultBars) \<le> 60 / lbsToKg"
    by (simp add: defaultBars_def lbsToKg_def)
  have sides: "(''both-sides'' = ''both-sides'') = (''two-sided'' = ''two-sided'')"
    by simp
  have notLoading: "\<not> False" and selected: "''bar-standard'' \<noteq> ''''"
    by simp_all
  show ?thesis
    using round_trip [OF notLoading selected findBar_default_standard target nonneg above sides refl,
        of defaultPlates]
      findBar_default_standard target above
    by (simp add: resolve_default_60_kg calculationNumSides_def weight_default_standard)
qed

subsection \<open>Inventory respect\<close>

text \<open>
  Claim C2. For every call of the resolver on an inventory whose plate types have distinct
  ids, and for every plate type of the inventory with a non-negative quantity, the number
  of entries of the returned per-side loadout that refer to that plate type is at most
  \<open>\<lfloor>quantity / numSides\<rfloor>\<close>, where \<open>numSides\<close> is 2 in two-sided mode and 1 otherwise.
\<close>

theorem inventory_respect:
  assumes "distinct (map plate_id plates)"
    and "p \<in> set plates"
    and "0 \<le> quantity p"
  shows "int (length (filter (\<lambda>q. plate_id q = plate_id p)
           (result_plates (snd (resolvePlates unit parsed isLoading sel calculationType bars plates)))))
         \<le> \<lfloor>real_of_int (quantity p) / (if calculationType = ''two-sided'' then 2 else 1)\<rfloor>"
proof -
  let ?n = "calculationNumSides calculationType"
  let ?cap = "\<lfloor>real_of_int (quantity p) / ?n\<rfloor>"
  have cap: "0 \<le> ?cap"
    using assms(3) calculationNumSides_pos [of calculationType] by simp
  have "length (filter (\<lambda>q. plate_id q = plate_id p)
           (result_plates (snd (resolvePlates unit parsed isLoading sel calculationType bars plates))))
        \<le> nat ?cap"
    using loadout_count_by_id [of "plate_id p" unit parsed isLoading sel calculationType bars plates]
    by (simp add: filter_id_distinct [OF assms(1,2)])
  then have "int (length (filter (\<lambda>q. plate_id q = plate_id p)
           (result_plates (snd (resolvePlates unit parsed isLoading sel calculationType bars plates)))))
         \<le> ?cap"
    using cap by linarith
  then show ?thesis
    by (simp add: calculationNumSides_def)
qed

text \<open>
  With a single plate of 10 pounds in the inventory, two-sided mode and a target of 65 on
  the 45-pound bar, the bound is \<open>\<lfloor>1 / 2\<rfloor> = 0\<close>: the plate is not used.
\<close>

theorem inventory_respect_witness:
  "distinct (map plate_id singleTen) \<and> hd singleTen \<in> set singleTen
   \<and> 0 \<le> quantity (hd singleTen) \<and> quantity (hd singleTen) = 1
   \<and> length (filter (\<lambda>q. plate_id q = plate_id (hd singleTen))
        (result_plates (snd (resolvePlates ''lbs'' (Some 65) False ''bar-standard'' ''two-sided''
           defaultBars singleTen)))) = 0"
proof -
  have d: "distinct (map plate_id singleTen)" and m: "hd singleTen \<in> set singleTen"
    and q: "0 \<le> quantity (hd singleTen)"
    by (simp_all add: singleTen_def)
  show ?thesis
    using inventory_respect [OF d m q, of "''lbs''" "Some 65" False "''bar-standard''"
        "''two-sided''" defaultBars] d m
    by (simp add: singleTen_def)
qed

subsection \<open>The inventory after a call\<close>

text \<open>
  Claim C3. The claim is that the inventory sequence is the same before and after every
  call. The effect calls \<^verbatim>\<open>plates.sort(...)\<close> on the inventory array itself, before it
  copies it: with the default plates in ascending order, the standard bar and a target of
  135 pounds, the call leaves the inventory array in descending order, which is not the
  order it had.
\<close>

theorem resolvePlates_reorders_inventory:
  "fst (resolvePlates ''lbs'' (Some 135) False ''bar-standard'' ''two-sided'' defaultBars
         (rev defaultPlates)) = defaultPlates
   \<and> defaultPlates \<noteq> rev defaultPlates"
proof
  have "resolvePlates ''lbs'' (Some 135) False ''bar-standard'' ''two-sided'' defaultBars
          (rev defaultPlates) =
        loadAndReport ''lbs'' 135 45 2 45 (rev defaultPlates)"
    by (simp add: resolvePlates_def findBar_default_standard targetInLbsOf_def)
       (simp add: defaultBars_def calculationNumSides_def Let_def)
  moreover have "arraySort byWeightDescending (rev defaultPlates) = defaultPlates"
    by (simp add: arraySort_def byWeightDescending_def defaultPlates_def)
  ultimately show "fst (resolvePlates ''lbs'' (Some 135) False ''bar-standard'' ''two-sided''
      defaultBars (rev defaultPlates)) = defaultPlates"
    by (simp add: fst_loadAndReport)
next
  show "defaultPlates \<noteq> rev defaultPlates"
    by (simp add: defaultPlates_def)
qed

subsection \<open>The scenario of 140 pounds\<close>

text \<open>
  Claim C4. With a selected bar of 45 pounds, the inventory of four plates each of 45,
  25, 10, 5 and 2.5 pounds, a target of 140 pounds and two-sided mode, the resolver
  returns the per-side loadout of one 45 and then one 2.5, and the message
  \<^verbatim>\<open>Total: 140 lbs\<close>, the message of an exact match.
\<close>

theorem scenario_target_140:
  assumes "findBar bars sel = Some b" and "bar_weight b = 45" and "sel \<noteq> ''''"
  shows "resolvePlates ''lbs'' (Some 140) False sel ''two-sided'' bars (scenarioPlates ident col) =
     (scenarioPlates ident col,
      \<lparr>result_plates = [scenarioPlate ident col 0 45, scenarioPlate ident col 4 (5 / 2)],
         result_message = Total (AsNumber 140) ''lbs''\<rparr>)"
proof -
  have "resolvePlates ''lbs'' (Some 140) False sel ''two-sided'' bars (scenarioPlates ident col) =
      loadAndReport ''lbs'' 140 45 2 (95 / 2) (scenarioPlates ident col)"
    using assms by (simp add: resolvePlates_def targetInLbsOf_def calculationNumSides_def Let_def)
  also have "\<dots> = (scenarioPlates ident col,
      \<lparr>result_plates = [scenarioPlate ident col 0 45, scenarioPlate ident col 4 (5 / 2)],
         result_message = Total (AsNumber 140) ''lbs''\<rparr>)"
    by (simp add: loadAndReport_def scenario_sorted jsonCopy_same scenario_loop
        loadedWeightInLbsOf_def sumWeights_def scenarioPlate_def convertWeight_def
        formatWeight_def roundToDecimal_def Math_round_def)
  finally show ?thesis .
qed

theorem scenario_target_140_witness:
  "findBar defaultBars ''bar-standard'' = Some (hd defaultBars)
   \<and> bar_weight (hd defaultBars) = 45
   \<and> map weight (result_plates (snd (resolvePlates ''lbs'' (Some 140) False ''bar-standard''
        ''two-sided'' defaultBars (scenarioPlates (\<lambda>k. ''id'') (\<lambda>k. ''grey''))))) = [45, 5 / 2]
   \<and> result_message (snd (resolvePlates ''lbs'' (Some 140) False ''bar-standard''
        ''two-sided'' defaultBars (scenarioPlates (\<lambda>k. ''id'') (\<lambda>k. ''grey''))))
       = Total (AsNumber 140) ''lbs''"
proof -
  have selected: "''bar-standard'' \<noteq> ''''"
    by simp
  show ?thesis
    using scenario_target_140 [OF findBar_default_standard weight_default_standard selected,
        of "\<lambda>k. ''id''" "\<lambda>k. ''grey''"]
      findBar_default_standard weight_default_standard
    by (simp add: scenarioPlate_def)
qed

subsection \<open>The order of the loadout\<close>

text \<open>
  Claim C5. For every call of the resolver, the returned per-side loadout is
  non-increasing in weight: each plate weighs at least as much as every plate after it.
\<close>

theorem loadout_descending:
  "sorted_wrt (\<lambda>a b. weight b \<le> weight a)
     (result_plates (snd (resolvePlates unit parsed isLoading sel calculationType bars plates)))"
proof -
  have "sorted_wrt (\<lambda>a b. weight b \<le> weight a)
          (result_plates (snd (loadAndReport unit t bw n w plates)))" for t bw n w
    using loadPlates_descending [of "[]" "arraySort byWeightDescending plates" n w]
    by (simp add: plates_loadAndReport arraySort_descending)
  then show ?thesis
    by (simp add: resolvePlates_def Let_def split: option.splits)
qed

theorem loadout_descending_witness:
  "sorted_wrt (\<lambda>a b. weight b \<le> weight a) [defaultPlates ! 0, defaultPlates ! 4]
   \<and> map weight [defaultPlates ! 0, defaultPlates ! 4] = [45, 5 / 2]"
  using loadout_descending [of "''lbs''" "Some 140" False "''bar-standard''" "''two-sided''"
      defaultBars defaultPlates]
  by (simp add: resolve_default_140) (simp add: defaultPlates_def)

subsection \<open>The reverse accumulator's formula\<close>

text \<open>
  Claim C6. For every per-side loadout, every bar found under the selected id and every
  sidedness, the total is the bar's weight plus the sum of the plate weights times the
  number of sides, which is 2 for both-sides and 1 for one-side.
\<close>

theorem totalWeightInLbs_formula:
  assumes "findBar bars sel = Some b"
  shows "totalWeightInLbs bars sel selectedPlates sidedness =
           bar_weight b + sum_list (map weight selectedPlates) *
             (if sidedness = ''both-sides'' then 2 else 1)"
  using assms
  by (simp add: totalWeightInLbs_def sidednessNumSides_def sumWeights_sum_list orZero_Some)

theorem totalWeightInLbs_formula_witness:
  "findBar defaultBars ''bar-standard'' = Some (hd defaultBars) \<and>
   totalWeightInLbs defaultBars ''bar-standard'' defaultPlates ''both-sides'' = 220 \<and>
   totalWeightInLbs defaultBars ''bar-standard'' defaultPlates ''one-side'' = 265 / 2"
  using findBar_default_standard
    totalWeightInLbs_formula [OF findBar_default_standard, of defaultPlates "''both-sides''"]
    totalWeightInLbs_formula [OF findBar_default_standard, of defaultPlates "''one-side''"]
  by (simp add: defaultPlates_def defaultBars_def)

subsection \<open>The boundary at the bar's weight\<close>

text \<open>
  Claim C7, as amended. For every selected bar that is found, every inventory and every
  target that is not negative: a target equal to the bar's weight gives the message
  \<^verbatim>\<open>Just the bar\<close> with an empty loadout, and a target below the bar's weight gives the
  message \<^verbatim>\<open>Weight must be at least the bar weight\<close> with an empty loadout, and the
  message holds the bar's weight converted to the display unit. The inventory is left as
  it was. (A negative target gives \<^verbatim>\<open>Enter a valid target weight.\<close> instead.)
\<close>

theorem boundary_classification:
  assumes "\<not> isLoading" and "sel \<noteq> ''''"
    and "findBar bars sel = Some b"
    and "targetInLbsOf unit parsed = Some t"
    and "0 \<le> t"
  shows "(t = bar_weight b \<longrightarrow>
            resolvePlates unit parsed isLoading sel calculationType bars plates =
              (plates, \<lparr>result_plates = [],
                 result_message = JustTheBar (convertWeight (bar_weight b) unit ''lbs'') unit\<rparr>))
       \<and> (t < bar_weight b \<longrightarrow>
            resolvePlates unit parsed isLoading sel calculationType bars plates =
              (plates, \<lparr>result_plates = [],
                 result_message =
                   WeightMustBeAtLeast (convertWeight (bar_weight b) unit ''lbs'') unit\<rparr>))"
  using assms by (simp add: resolvePlates_def Let_def)

theorem boundary_classification_witness:
  "resolvePlates ''lbs'' (Some 45) False ''bar-standard'' ''two-sided'' defaultBars defaultPlates =
     (defaultPlates, \<lparr>result_plates = [], result_message = JustTheBar 45 ''lbs''\<rparr>)
   \<and> resolvePlates ''lbs'' (Some 44) False ''bar-standard'' ''two-sided'' defaultBars defaultPlates =
     (defaultPlates, \<lparr>result_plates = [], result_message = WeightMustBeAtLeast 45 ''lbs''\<rparr>)"
proof -
  have notLoading: "\<not> False" and selected: "''bar-standard'' \<noteq> ''''"
    by simp_all
  have t45: "targetInLbsOf ''lbs'' (Some 45) = Some 45"
    and t44: "targetInLbsOf ''lbs'' (Some 44) = Some 44"
    by (simp_all add: targetInLbsOf_def)
  have "(0::real) \<le> 45" and "(0::real) \<le> 44"
    by simp_all
  then show ?thesis
    using boundary_classification [OF notLoading selected findBar_default_standard t45,
        of "''two-sided''" defaultPlates]
      boundary_classification [OF notLoading selected findBar_default_standard t44,
        of "''two-sided''" defaultPlates]
    by (simp add: weight_default_standard convertWeight_def)
qed

text \<open>
  The claim as it was stated fails for a target below the bar's weight that is negative:
  with the bar \<^verbatim>\<open>No Bar\<close> of weight 0 and the target \<open>-1\<close>, one pound below the bar's
  weight, the message is \<^verbatim>\<open>Enter a valid target weight.\<close>
\<close>

theorem negative_target_counterexample:
  "findBar defaultBars ''no-bar'' = Some (last defaultBars)
   \<and> targetInLbsOf ''lbs'' (Some (- 1)) = Some (bar_weight (last defaultBars) - 1)
   \<and> resolvePlates ''lbs'' (Some (- 1)) False ''no-bar'' ''two-sided'' defaultBars defaultPlates =
       (defaultPlates, \<lparr>result_plates = [], result_message = EnterAValidTargetWeight\<rparr>)
   \<and> EnterAValidTargetWeight \<noteq>
       WeightMustBeAtLeast (convertWeight (bar_weight (last defaultBars)) ''lbs'' ''lbs'') ''lbs''"
  by (simp add: resolvePlates_def findBar_default_nobar targetInLbsOf_def)
     (simp add: defaultBars_def)

subsection \<open>Repeated calls\<close>

text \<open>
  Claim C8. The result of a call is a function of its inputs alone, and a second call
  with the same inputs, made on the inventory array as the first call left it, returns
  the same loadout and the same message as the first and leaves the array as it found it.
\<close>

theorem resolvePlates_idempotent:
  "resolvePlates unit parsed isLoading sel calculationType bars
     (fst (resolvePlates unit parsed isLoading sel calculationType bars plates)) =
   resolvePlates unit parsed isLoading sel calculationType bars plates"
  by (simp add: resolvePlates_def Let_def fst_loadAndReport loadAndReport_sorted_input
      split: option.splits)

theorem resolvePlates_idempotent_witness:
  "resolvePlates ''lbs'' (Some 135) False ''bar-standard'' ''two-sided'' defaultBars defaultPlates =
     (defaultPlates,
      \<lparr>result_plates = [defaultPlates ! 0], result_message = Total (AsNumber 135) ''lbs''\<rparr>)"
  using resolvePlates_idempotent [of "''lbs''" "Some 135" False "''bar-standard''" "''two-sided''"
      defaultBars "rev defaultPlates"]
  by (simp add: resolve_unsorted_135)

subsection \<open>The unit converter\<close>

text \<open>
  Claim C9. \<open>convertWeight\<close> is a total function, and for every value and every pair of
  units other than (kg, lbs) and (lbs, kg) it returns the value unchanged; so it does for
  two equal units.
\<close>

theorem convertWeight_identity_outside_known:
  assumes "(unit, baseUnit) \<noteq> (''kg'', ''lbs'')"
    and "(unit, baseUnit) \<noteq> (''lbs'', ''kg'')"
  shows "convertWeight w unit baseUnit = w"
  using assms by (auto simp: convertWeight_def)

theorem convertWeight_identity_witness:
  "convertWeight 20 ''kg'' ''kg'' = 20 \<and> convertWeight 45 ''lbs'' ''lbs'' = 45
   \<and> convertWeight 7 ''stone'' ''lbs'' = 7"
  using convertWeight_identity_outside_known [of "''kg''" "''kg''" 20]
    convertWeight_identity_outside_known [of "''lbs''" "''lbs''" 45]
    convertWeight_identity_outside_known [of "''stone''" "''lbs''" 7]
  by simp

subsection \<open>An unknown bar\<close>

text \<open>
  Claim C10. When no bar of the list has the selected id, and so for the empty list, the
  reverse accumulator takes 0 for the bar's weight: the total is the sum of the plate
  weights times the number of sides, and it is a value, not an error.
\<close>

theorem totalWeightInLbs_unknown_bar:
  assumes "findBar bars sel = None"
  shows "totalWeightInLbs bars sel selectedPlates sidedness =
           sum_list (map weight selectedPlates) * (if sidedness = ''both-sides'' then 2 else 1)"
  using assms
  by (simp add: totalWeightInLbs_def sidednessNumSides_def sumWeights_sum_list orZero_def)

theorem totalWeightInLbs_unknown_bar_witness:
  "findBar [] ''bar-standard'' = None \<and>
   totalWeightInLbs [] ''bar-standard'' defaultPlates ''both-sides'' = 175 \<and>
   findBar defaultBars ''missing'' = None \<and>
   totalWeightInLbs defaultBars ''missing'' defaultPlates ''one-side'' = 175 / 2"
proof -
  have a: "findBar [] ''bar-standard'' = None"
    by (simp add: findBar_def)
  have b: "findBar defaultBars ''missing'' = None"
    by (simp add: findBar_def defaultBars_def)
  show ?thesis
    using a b totalWeightInLbs_unknown_bar [OF a, of defaultPlates "''both-sides''"]
      totalWeightInLbs_unknown_bar [OF b, of defaultPlates "''one-side''"]
    by (simp add: defaultPlates_def)
qed

end
